theory Spec2Isabelle
  imports Main
begin

section \<open>Python values used by the rule engine\<close>

text \<open>
  The program keeps its knowledge base in Python dictionaries with string keys. The values
  stored in them are strings, lists of strings and (for a conclusion) a dictionary from
  strings to strings. A dictionary is modelled as an association list in insertion order
  with pairwise distinct keys. A character of a Python string is one \<open>char\<close>.
\<close>

datatype pyval =
    Str string
  | StrList "string list"
  | Dict "(string \<times> string) list"

type_synonym pydict = "(string \<times> pyval) list"

text \<open>
  \<open>KeyError k\<close>: a dictionary was subscripted with the missing key \<open>k\<close>.
  \<open>TypeError\<close>: a string or a list was subscripted with a string.
  \<open>Unmodelled\<close>: the program formats a list or a dictionary into a string; the text that
  Python produces there is not followed by this development.
\<close>

datatype error = KeyError string | TypeError | Unmodelled

text \<open>\<open>d[k]\<close> for a dictionary \<open>d\<close> of the store.\<close>

definition subscript :: "pydict \<Rightarrow> string \<Rightarrow> error + pyval" where
  "subscript d k = (case map_of d k of None \<Rightarrow> Inl (KeyError k) | Some v \<Rightarrow> Inr v)"

text \<open>\<open>v[k]\<close> for a stored value \<open>v\<close> and a string key \<open>k\<close>.\<close>

fun getitem :: "pyval \<Rightarrow> string \<Rightarrow> error + string" where
  "getitem (Dict d) k = (case map_of d k of None \<Rightarrow> Inl (KeyError k) | Some v \<Rightarrow> Inr v)"
| "getitem (Str s) k = Inl TypeError"
| "getitem (StrList xs) k = Inl TypeError"

text \<open>
  The elements that a \<open>for\<close> over a value visits: the items of a list, the characters of a
  string (each a string of length one), the keys of a dictionary.
\<close>

fun py_iter :: "pyval \<Rightarrow> string list" where
  "py_iter (StrList xs) = xs"
| "py_iter (Str s) = map (\<lambda>c. [c]) s"
| "py_iter (Dict d) = map fst d"

section \<open>The rule engine: \<open>SimpleCovidExpert\<close>\<close>

record SimpleCovidExpert =
  rules :: "pydict list"
  default_concl :: pyval

text \<open>The literals of \<open>__init__\<close>; the nested conclusion dictionaries are named apart.\<close>

definition conclusion_1 :: pyval where
  "conclusion_1 =
     Dict
       [(''label'', ''Likely COVID-19''),
        (''confidence'', ''High''),
        (''advice'', ''Seek medical advice and isolate. Consider getting a PCR test.'')]"

definition rule_1 :: pydict where
  "rule_1 =
     [(''name'', Str ''Rule 1: Fever + Loss of Taste/Smell''),
      (''conditions'', StrList [''fever'', ''loss_taste_smell'']),
      (''conclusion'', conclusion_1)]"

definition conclusion_2 :: pyval where
  "conclusion_2 =
     Dict
       [(''label'', ''Possible COVID-19''),
        (''confidence'', ''Medium''),
        (''advice'', ''Self-isolate, monitor symptoms and consider testing.'')]"

definition rule_2 :: pydict where
  "rule_2 =
     [(''name'', Str ''Rule 2: Fever + Cough''),
      (''conditions'', StrList [''fever'', ''cough'']),
      (''conclusion'', conclusion_2)]"

definition default_rule :: pyval where
  "default_rule =
     Dict
       [(''label'', ''Low likelihood of COVID-19''),
        (''confidence'', ''Low''),
        (''advice'',
         ''Could be normal flu. Monitor your condition and seek help if symptoms worsen.'')]"

text \<open>\<open>SimpleCovidExpert.__init__\<close>: the two rules, in this order, and the default.\<close>

definition SimpleCovidExpert_init :: SimpleCovidExpert where
  "SimpleCovidExpert_init = \<lparr>rules = [rule_1, rule_2], default_concl = default_rule\<rparr>"

text \<open>
  \<open>SimpleCovidExpert.evaluate\<close>. The loop over \<open>self.rules\<close> is the recursion of
  \<open>evaluate_loop\<close>; \<open>all(cond in facts for cond in rule["conditions"])\<close> subscripts the
  rule first, then tests every element.
\<close>

fun evaluate_loop ::
  "pydict list \<Rightarrow> pyval \<Rightarrow> string set \<Rightarrow> error + (pydict option \<times> pyval)" where
  "evaluate_loop [] dflt facts = Inr (None, dflt)"
| "evaluate_loop (rule # rest) dflt facts =
     (case subscript rule ''conditions'' of
        Inl e \<Rightarrow> Inl e
      | Inr conds \<Rightarrow>
          if list_all (\<lambda>cond. cond \<in> facts) (py_iter conds)
          then (case subscript rule ''conclusion'' of
                  Inl e \<Rightarrow> Inl e
                | Inr c \<Rightarrow> Inr (Some rule, c))
          else evaluate_loop rest dflt facts)"

definition evaluate ::
  "SimpleCovidExpert \<Rightarrow> string set \<Rightarrow> error + (pydict option \<times> pyval)" where
  "evaluate self facts = evaluate_loop (rules self) (default_concl self) facts"

section \<open>The window: \<open>CovidExpertUI\<close>\<close>

text \<open>
  Only the parts of the window that the callbacks read or write are kept: the engine, the six
  check box variables, the three string variables, the content of the advice text box, and
  the information boxes shown so far (title and message), which stand for the calls of
  \<open>messagebox.showinfo\<close>. A callback that raises is the value \<open>Inl\<close>.
\<close>

record CovidExpertUI =
  engine :: SimpleCovidExpert
  symptoms_vars :: "(string \<times> bool) list"
  result_var :: string
  confidence_var :: string
  advice_text :: string
  explain_var :: string
  messageboxes :: "(string \<times> string) list"

definition CovidExpertUI_init :: CovidExpertUI where
  "CovidExpertUI_init =
     \<lparr>engine = SimpleCovidExpert_init,
      symptoms_vars =
        [(''fever'', False), (''cough'', False), (''sore_throat'', False),
         (''shortness_breath'', False), (''loss_taste_smell'', False),
         (''recent_exposure'', False)],
      result_var = ''No diagnosis yet.'',
      confidence_var = ''-'',
      advice_text = [],
      explain_var = ''No rule fired yet.'',
      messageboxes = []\<rparr>"

text \<open>
  A click on the check box of symptom \<open>k\<close>: the \<open>Checkbutton\<close> created in \<open>__init__\<close>
  flips its \<open>BooleanVar\<close>.
\<close>

definition toggle :: "string \<Rightarrow> CovidExpertUI \<Rightarrow> CovidExpertUI" where
  "toggle k self =
     self\<lparr>symptoms_vars :=
            map (\<lambda>(k', v). (k', if k' = k then \<not> v else v)) (symptoms_vars self)\<rparr>"

text \<open>Sequencing of two steps of which the first may raise.\<close>

definition and_then :: "error + 'a \<Rightarrow> ('a \<Rightarrow> error + 'b) \<Rightarrow> error + 'b" where
  "and_then m f = (case m of Inl e \<Rightarrow> Inl e | Inr x \<Rightarrow> f x)"

text \<open>The text that an f-string puts in place of \<open>{v}\<close>.\<close>

fun format_value :: "pyval \<Rightarrow> error + string" where
  "format_value (Str s) = Inr s"
| "format_value (StrList xs) = Inl Unmodelled"
| "format_value (Dict d) = Inl Unmodelled"

text \<open>\<open>sep.join(xs)\<close>.\<close>

fun join :: "string \<Rightarrow> string list \<Rightarrow> string" where
  "join sep [] = []"
| "join sep [x] = x"
| "join sep (x # y # ys) = x @ sep @ join sep (y # ys)"

text \<open>\<open>{k for k, v in self.symptoms_vars.items() if v.get()}\<close>.\<close>

definition selected_facts :: "(string \<times> bool) list \<Rightarrow> string set" where
  "selected_facts vars = set (map fst (filter snd vars))"

text \<open>
  The text for the "Rule Fired" label. \<open>if rule:\<close> is false for \<open>None\<close> and for an empty
  dictionary.
\<close>

definition explanation :: "pydict option \<Rightarrow> error + string" where
  "explanation rule =
     (case rule of
        None \<Rightarrow> Inr ''Default rule applied.''
      | Some r \<Rightarrow>
          if r = [] then Inr ''Default rule applied.''
          else and_then (subscript r ''name'') (\<lambda>n.
               and_then (format_value n) (\<lambda>s. Inr (''Fired: '' @ s))))"

definition advisory :: "string \<times> string" where
  "advisory = (''Important'', ''You have recent exposure. Please isolate and get tested.'')"

definition run_diagnosis :: "CovidExpertUI \<Rightarrow> error + CovidExpertUI" where
  "run_diagnosis self =
     (let facts = selected_facts (symptoms_vars self) in
      and_then (evaluate (engine self) facts) (\<lambda>(rule, conclusion).
      and_then (getitem conclusion ''label'') (\<lambda>label.
      and_then (getitem conclusion ''confidence'') (\<lambda>confidence.
      and_then (getitem conclusion ''advice'') (\<lambda>advice.
      and_then (explanation rule) (\<lambda>explain.
        Inr (self\<lparr>result_var := label,
                  confidence_var := confidence,
                  advice_text := advice,
                  explain_var := explain,
                  messageboxes :=
                    messageboxes self @
                    (if ''recent_exposure'' \<in> facts \<and> confidence \<in> set [''High'', ''Medium'']
                     then [advisory] else [])\<rparr>)))))))"

definition reset :: "CovidExpertUI \<Rightarrow> CovidExpertUI" where
  "reset self =
     self\<lparr>symptoms_vars := map (\<lambda>(k, v). (k, False)) (symptoms_vars self),
          result_var := ''No diagnosis yet.'',
          confidence_var := ''-'',
          explain_var := ''No rule fired yet.'',
          advice_text := []\<rparr>"

text \<open>
  \<open>show_rules\<close> opens a new window; its result here is the text inserted into that window's
  text box. The first argument of the loop is the rest of \<open>self.engine.rules\<close>, the second
  the text inserted so far.
\<close>

definition newline :: char where
  "newline = CHR 0x0A"

fun show_rules_loop :: "pydict list \<Rightarrow> string \<Rightarrow> error + string" where
  "show_rules_loop [] txt = Inr txt"
| "show_rules_loop (r # rest) txt =
     and_then (subscript r ''name'') (\<lambda>n.
     and_then (format_value n) (\<lambda>name.
     and_then (subscript r ''conditions'') (\<lambda>conds.
     and_then (subscript r ''conclusion'') (\<lambda>c.
     and_then (getitem c ''label'') (\<lambda>label.
     and_then (getitem c ''confidence'') (\<lambda>confidence.
       show_rules_loop rest
         (txt @ name @ '':'' @ [newline]
              @ ''  IF '' @ join '' AND '' (py_iter conds) @ [newline]
              @ ''  THEN '' @ label @ '' ('' @ confidence @ '')'' @ [newline, newline])))))))"

definition show_rules :: "CovidExpertUI \<Rightarrow> error + string" where
  "show_rules self =
     and_then (show_rules_loop (rules (engine self)) []) (\<lambda>txt.
     and_then (getitem (default_concl (engine self)) ''label'') (\<lambda>label.
     and_then (getitem (default_concl (engine self)) ''confidence'') (\<lambda>confidence.
       Inr (txt @ ''Default rule: '' @ label @ '' ('' @ confidence @ '')''))))"

section \<open>Notions used to state the properties\<close>

text \<open>The condition set of a rule: the elements of its \<open>conditions\<close> entry.\<close>

definition condition_set :: "pydict \<Rightarrow> string set" where
  "condition_set r =
     (case subscript r ''conditions'' of Inl e \<Rightarrow> {} | Inr conds \<Rightarrow> set (py_iter conds))"

text \<open>A step returns when it does not raise.\<close>

definition returns :: "error + 'a \<Rightarrow> bool" where
  "returns m = (case m of Inl e \<Rightarrow> False | Inr x \<Rightarrow> True)"

text \<open>A conclusion: a value with the entries \<open>label\<close>, \<open>confidence\<close> and \<open>advice\<close>.\<close>

definition is_conclusion :: "pyval \<Rightarrow> bool" where
  "is_conclusion c =
     (returns (getitem c ''label'') \<and> returns (getitem c ''confidence'') \<and> returns (getitem c ''advice''))"

text \<open>
  A valid rule has a name that is a string, a non-empty condition set and a conclusion. A
  valid store holds valid rules and a default conclusion.
\<close>

definition valid_rule :: "pydict \<Rightarrow> bool" where
  "valid_rule r =
     (returns (and_then (subscript r ''name'') format_value) \<and>
      (case subscript r ''conditions'' of Inl e \<Rightarrow> False | Inr conds \<Rightarrow> py_iter conds \<noteq> []) \<and>
      (case subscript r ''conclusion'' of Inl e \<Rightarrow> False | Inr c \<Rightarrow> is_conclusion c))"

definition store_inv :: "SimpleCovidExpert \<Rightarrow> bool" where
  "store_inv store = (list_all valid_rule (rules store) \<and> is_conclusion (default_concl store))"

text \<open>
  Windows used as examples: the window as \<open>__init__\<close> builds it, after clicks on the named
  check boxes.
\<close>

definition ui_exposed_rule_1 :: CovidExpertUI where
  "ui_exposed_rule_1 =
     toggle ''recent_exposure'' (toggle ''loss_taste_smell'' (toggle ''fever'' CovidExpertUI_init))"

definition ui_exposed_only :: CovidExpertUI where
  "ui_exposed_only = toggle ''recent_exposure'' CovidExpertUI_init"

definition ui_fever_cough :: CovidExpertUI where
  "ui_fever_cough = toggle ''cough'' (toggle ''fever'' CovidExpertUI_init)"

section \<open>Facts about the store of \<open>__init__\<close>\<close>

lemma subscript_rule_1:
  "subscript rule_1 ''name'' = Inr (Str ''Rule 1: Fever + Loss of Taste/Smell'')"
  "subscript rule_1 ''conditions'' = Inr (StrList [''fever'', ''loss_taste_smell''])"
  "subscript rule_1 ''conclusion'' = Inr conclusion_1"
  by (simp_all add: subscript_def rule_1_def)

lemma subscript_rule_2:
  "subscript rule_2 ''name'' = Inr (Str ''Rule 2: Fever + Cough'')"
  "subscript rule_2 ''conditions'' = Inr (StrList [''fever'', ''cough''])"
  "subscript rule_2 ''conclusion'' = Inr conclusion_2"
  by (simp_all add: subscript_def rule_2_def)

lemma evaluate_init:
  "evaluate SimpleCovidExpert_init facts =
     (if ''fever'' \<in> facts \<and> ''loss_taste_smell'' \<in> facts then Inr (Some rule_1, conclusion_1)
      else if ''fever'' \<in> facts \<and> ''cough'' \<in> facts then Inr (Some rule_2, conclusion_2)
      else Inr (None, default_rule))"
  by (simp add: evaluate_def SimpleCovidExpert_init_def subscript_rule_1 subscript_rule_2)

lemma condition_set_rules:
  "condition_set rule_1 = {''fever'', ''loss_taste_smell''}"
  "condition_set rule_2 = {''fever'', ''cough''}"
  by (simp_all add: condition_set_def subscript_rule_1 subscript_rule_2)

lemma store_fields:
  "rules SimpleCovidExpert_init = [rule_1, rule_2]"
  "default_concl SimpleCovidExpert_init = default_rule"
  by (simp_all add: SimpleCovidExpert_init_def)

lemma rule_1_neq_rule_2: "rule_1 \<noteq> rule_2"
  by (simp add: rule_1_def rule_2_def)

lemma getitem_conclusions:
  "getitem conclusion_1 ''label'' = Inr ''Likely COVID-19''"
  "getitem conclusion_1 ''confidence'' = Inr ''High''"
  "getitem conclusion_1 ''advice'' = Inr ''Seek medical advice and isolate. Consider getting a PCR test.''"
  "getitem conclusion_2 ''label'' = Inr ''Possible COVID-19''"
  "getitem conclusion_2 ''confidence'' = Inr ''Medium''"
  "getitem conclusion_2 ''advice'' = Inr ''Self-isolate, monitor symptoms and consider testing.''"
  "getitem default_rule ''label'' = Inr ''Low likelihood of COVID-19''"
  "getitem default_rule ''confidence'' = Inr ''Low''"
  "getitem default_rule ''advice'' = Inr ''Could be normal flu. Monitor your condition and seek help if symptoms worsen.''"
  by (simp_all add: conclusion_1_def conclusion_2_def default_rule_def)

lemma store_inv_init: "store_inv SimpleCovidExpert_init"
  by (simp add: store_inv_def SimpleCovidExpert_init_def valid_rule_def is_conclusion_def
      returns_def and_then_def subscript_rule_1 subscript_rule_2 getitem_conclusions)

lemma loop_find_None:
  "list_all valid_rule rs \<Longrightarrow> find (\<lambda>r. condition_set r \<subseteq> facts) rs = None \<Longrightarrow>
   evaluate_loop rs d facts = Inr (None, d)"
  by (induction rs) (auto simp: valid_rule_def condition_set_def list_all_iff split: sum.splits if_splits)

lemma loop_find_Some:
  "list_all valid_rule rs \<Longrightarrow> find (\<lambda>r. condition_set r \<subseteq> facts) rs = Some r \<Longrightarrow>
   \<exists>c. subscript r ''conclusion'' = Inr c \<and> evaluate_loop rs d facts = Inr (Some r, c)"
  by (induction rs) (auto simp: valid_rule_def condition_set_def list_all_iff split: sum.splits if_splits)


lemma evaluate_find:
  assumes "store_inv store" and "evaluate store facts = Inr (Some r, c)"
  shows "find (\<lambda>r. condition_set r \<subseteq> facts) (rules store) = Some r"
proof (cases "find (\<lambda>r. condition_set r \<subseteq> facts) (rules store)")
  case None
  with assms loop_find_None [of "rules store" facts "default_concl store"]
  show ?thesis by (simp add: store_inv_def evaluate_def)
next
  case (Some r')
  with assms loop_find_Some [of "rules store" facts r' "default_concl store"]
  show ?thesis by (auto simp: store_inv_def evaluate_def)
qed

lemma evaluate_loop_agree:
  assumes "\<forall>r \<in> set rs. \<forall>c \<in> condition_set r. (c \<in> F) = (c \<in> G)"
  shows "evaluate_loop rs d F = evaluate_loop rs d G"
  using assms
proof (induction rs)
  case Nil
  show ?case by simp
next
  case (Cons r rs)
  then have rest: "evaluate_loop rs d F = evaluate_loop rs d G" by simp
  show ?case
  proof (cases "subscript r ''conditions''")
    case (Inl e)
    then show ?thesis by simp
  next
    case (Inr conds)
    then have "condition_set r = set (py_iter conds)"
      by (simp add: condition_set_def)
    with Cons.prems have "\<forall>c \<in> set (py_iter conds). (c \<in> F) = (c \<in> G)"
      by simp
    then have "list_all (\<lambda>cond. cond \<in> F) (py_iter conds) =
               list_all (\<lambda>cond. cond \<in> G) (py_iter conds)"
      by (simp add: list_all_iff)
    with Inr rest show ?thesis by simp
  qed
qed

section \<open>Facts about the callbacks\<close>

lemma run_diagnosis_cases:
  assumes "run_diagnosis u = Inr v"
  obtains rule conclusion label confidence advice explain where
    "evaluate (engine u) (selected_facts (symptoms_vars u)) = Inr (rule, conclusion)"
    "getitem conclusion ''label'' = Inr label"
    "getitem conclusion ''confidence'' = Inr confidence"
    "getitem conclusion ''advice'' = Inr advice"
    "explanation rule = Inr explain"
    "v = u\<lparr>result_var := label, confidence_var := confidence, advice_text := advice,
           explain_var := explain,
           messageboxes := messageboxes u @
             (if ''recent_exposure'' \<in> selected_facts (symptoms_vars u) \<and>
                 confidence \<in> set [''High'', ''Medium'']
              then [advisory] else [])\<rparr>"
  using assms unfolding run_diagnosis_def and_then_def Let_def
  by (auto split: sum.splits prod.splits)

lemma run_diagnosis_returns:
  assumes "evaluate (engine u) (selected_facts (symptoms_vars u)) = Inr (rule, conclusion)"
    "getitem conclusion ''label'' = Inr label"
    "getitem conclusion ''confidence'' = Inr confidence"
    "getitem conclusion ''advice'' = Inr advice"
    "explanation rule = Inr explain"
  shows "run_diagnosis u =
     Inr (u\<lparr>result_var := label, confidence_var := confidence, advice_text := advice,
           explain_var := explain,
           messageboxes := messageboxes u @
             (if ''recent_exposure'' \<in> selected_facts (symptoms_vars u) \<and>
                 confidence \<in> set [''High'', ''Medium'']
              then [advisory] else [])\<rparr>)"
  using assms unfolding run_diagnosis_def and_then_def Let_def
  by simp

lemma explanation_rules:
  "explanation (Some rule_1) = Inr ''Fired: Rule 1: Fever + Loss of Taste/Smell''"
  "explanation (Some rule_2) = Inr ''Fired: Rule 2: Fever + Cough''"
  "explanation None = Inr ''Default rule applied.''"
    apply (simp add: explanation_def and_then_def subscript_rule_1)
    apply (simp add: rule_1_def)
   apply (simp add: explanation_def and_then_def subscript_rule_2)
   apply (simp add: rule_2_def)
  apply (simp add: explanation_def)
  done

lemma run_diagnosis_init_returns:
  assumes "engine u = SimpleCovidExpert_init"
  shows "\<exists>v. run_diagnosis u = Inr v"
proof -
  let ?facts = "selected_facts (symptoms_vars u)"
  have "evaluate (engine u) ?facts = Inr (Some rule_1, conclusion_1) \<or>
        evaluate (engine u) ?facts = Inr (Some rule_2, conclusion_2) \<or>
        evaluate (engine u) ?facts = Inr (None, default_rule)"
    using assms by (simp add: evaluate_init)
  then show ?thesis
  proof (elim disjE)
    assume r1: "evaluate (engine u) ?facts = Inr (Some rule_1, conclusion_1)"
    from run_diagnosis_returns [OF r1 getitem_conclusions(1-3) explanation_rules(1)]
    show ?thesis by blast
  next
    assume r2: "evaluate (engine u) ?facts = Inr (Some rule_2, conclusion_2)"
    from run_diagnosis_returns [OF r2 getitem_conclusions(4-6) explanation_rules(2)]
    show ?thesis by blast
  next
    assume d: "evaluate (engine u) ?facts = Inr (None, default_rule)"
    from run_diagnosis_returns [OF d getitem_conclusions(7-9) explanation_rules(3)]
    show ?thesis by blast
  qed
qed

lemma engine_toggle: "engine (toggle k u) = engine u"
  by (simp add: toggle_def)

lemma engine_examples:
  "engine CovidExpertUI_init = SimpleCovidExpert_init"
  "engine ui_exposed_rule_1 = SimpleCovidExpert_init"
  "engine ui_exposed_only = SimpleCovidExpert_init"
  by (simp_all add: ui_exposed_rule_1_def ui_exposed_only_def engine_toggle CovidExpertUI_init_def)

lemma facts_exposed_rule_1:
  "selected_facts (symptoms_vars ui_exposed_rule_1) =
     {''fever'', ''loss_taste_smell'', ''recent_exposure''}"
  by (simp add: ui_exposed_rule_1_def toggle_def CovidExpertUI_init_def selected_facts_def)

lemma facts_exposed_only:
  "selected_facts (symptoms_vars ui_exposed_only) = {''recent_exposure''}"
  by (simp add: ui_exposed_only_def toggle_def CovidExpertUI_init_def selected_facts_def)

lemma facts_fever_cough:
  "selected_facts (symptoms_vars ui_fever_cough) = {''fever'', ''cough''}"
  by (simp add: ui_fever_cough_def toggle_def CovidExpertUI_init_def selected_facts_def)

lemma engine_fever_cough: "engine ui_fever_cough = SimpleCovidExpert_init"
  by (simp add: ui_fever_cough_def engine_toggle CovidExpertUI_init_def)

lemma run_diagnosis_unchanged:
  assumes "run_diagnosis u = Inr v"
  shows "engine v = engine u" and "symptoms_vars v = symptoms_vars u"
  using assms by (elim run_diagnosis_cases, simp)+

section \<open>Properties of \<open>evaluate\<close>\<close>

text \<open>
  Claim C1. For a valid store, and so for the store built by \<open>__init__\<close>, \<open>evaluate\<close>
  returns the first rule in the store's order whose whole condition set is contained in the
  facts, together with that rule's conclusion: the rule at index \<open>i\<close> when it matches and no
  rule at a smaller index does. When no rule's condition set is contained in the facts,
  \<open>evaluate\<close> returns \<open>None\<close> and the store's default conclusion.
\<close>

theorem evaluate_first_match:
  assumes "store_inv store"
  shows "(\<forall>i. i < length (rules store) \<and> condition_set (rules store ! i) \<subseteq> facts \<and>
              (\<forall>j<i. \<not> condition_set (rules store ! j) \<subseteq> facts) \<longrightarrow>
            (\<exists>c. subscript (rules store ! i) ''conclusion'' = Inr c \<and>
                 evaluate store facts = Inr (Some (rules store ! i), c))) \<and>
         ((\<forall>i<length (rules store). \<not> condition_set (rules store ! i) \<subseteq> facts) \<longrightarrow>
            evaluate store facts = Inr (None, default_concl store))"
proof (intro conjI allI impI)
  from assms have wf: "list_all valid_rule (rules store)"
    by (simp add: store_inv_def)
  {
    fix i
    assume i: "i < length (rules store) \<and> condition_set (rules store ! i) \<subseteq> facts \<and>
               (\<forall>j<i. \<not> condition_set (rules store ! j) \<subseteq> facts)"
    then have "find (\<lambda>r. condition_set r \<subseteq> facts) (rules store) = Some (rules store ! i)"
      unfolding find_Some_iff by blast
    from loop_find_Some [OF wf this]
    show "\<exists>c. subscript (rules store ! i) ''conclusion'' = Inr c \<and>
              evaluate store facts = Inr (Some (rules store ! i), c)"
      by (simp add: evaluate_def)
  }
  {
    assume "\<forall>i<length (rules store). \<not> condition_set (rules store ! i) \<subseteq> facts"
    then have "find (\<lambda>r. condition_set r \<subseteq> facts) (rules store) = None"
      unfolding find_None_iff by (metis in_set_conv_nth)
    from loop_find_None [OF wf this]
    show "evaluate store facts = Inr (None, default_concl store)"
      by (simp add: evaluate_def)
  }
qed

text \<open>
  The store of \<open>__init__\<close> is valid; there the facts fever and cough give Rule 2 (index 1),
  and cough alone gives the default.
\<close>

theorem evaluate_first_match_witness:
  "store_inv SimpleCovidExpert_init \<and>
   evaluate SimpleCovidExpert_init {''fever'', ''cough''} = Inr (Some rule_2, conclusion_2) \<and>
   evaluate SimpleCovidExpert_init {''cough''} = Inr (None, default_rule)"
proof -
  note fm = evaluate_first_match [OF store_inv_init]
  have "\<exists>c. subscript (rules SimpleCovidExpert_init ! 1) ''conclusion'' = Inr c \<and>
          evaluate SimpleCovidExpert_init {''fever'', ''cough''} =
            Inr (Some (rules SimpleCovidExpert_init ! 1), c)"
    by (rule fm [THEN conjunct1, rule_format])
       (simp add: store_fields condition_set_rules)
  then have a: "evaluate SimpleCovidExpert_init {''fever'', ''cough''} =
                  Inr (Some rule_2, conclusion_2)"
    by (auto simp: store_fields subscript_rule_2)
  have "evaluate SimpleCovidExpert_init {''cough''} =
          Inr (None, default_concl SimpleCovidExpert_init)"
    by (rule fm [THEN conjunct2, rule_format])
       (auto simp: store_fields condition_set_rules less_Suc_eq)
  then have b: "evaluate SimpleCovidExpert_init {''cough''} = Inr (None, default_rule)"
    by (simp add: store_fields)
  from store_inv_init a b show ?thesis by simp
qed

text \<open>
  Claim C2. When the facts contain fever, cough and loss of taste or smell, the condition
  sets of both rules are satisfied and \<open>evaluate\<close> returns Rule 1, named
  "Rule 1: Fever + Loss of Taste/Smell", and not Rule 2.
\<close>

theorem evaluate_rule_1_precedence:
  assumes "''fever'' \<in> facts" and "''cough'' \<in> facts" and "''loss_taste_smell'' \<in> facts"
  shows "condition_set rule_1 \<subseteq> facts \<and> condition_set rule_2 \<subseteq> facts \<and>
         evaluate SimpleCovidExpert_init facts = Inr (Some rule_1, conclusion_1) \<and>
         evaluate SimpleCovidExpert_init facts \<noteq> Inr (Some rule_2, conclusion_2) \<and>
         subscript rule_1 ''name'' = Inr (Str ''Rule 1: Fever + Loss of Taste/Smell'')"
  using assms
  by (simp add: evaluate_init condition_set_rules rule_1_neq_rule_2 subscript_rule_1)

theorem evaluate_rule_1_precedence_witness:
  "evaluate SimpleCovidExpert_init {''fever'', ''cough'', ''loss_taste_smell''} =
     Inr (Some rule_1, conclusion_1) \<and>
   evaluate SimpleCovidExpert_init {''fever'', ''cough'', ''loss_taste_smell''} \<noteq>
     Inr (Some rule_2, conclusion_2)"
  using evaluate_rule_1_precedence [of "{''fever'', ''cough'', ''loss_taste_smell''}"]
  by (simp add: rule_1_neq_rule_2)

text \<open>
  Claim C3. When the facts contain fever and cough but not loss of taste or smell,
  \<open>evaluate\<close> returns the rule named "Rule 2: Fever + Cough" with a conclusion whose
  confidence is Medium.
\<close>

theorem evaluate_rule_2:
  assumes "''fever'' \<in> facts" and "''cough'' \<in> facts" and "''loss_taste_smell'' \<notin> facts"
  shows "\<exists>rule conclusion.
           evaluate SimpleCovidExpert_init facts = Inr (Some rule, conclusion) \<and>
           subscript rule ''name'' = Inr (Str ''Rule 2: Fever + Cough'') \<and>
           getitem conclusion ''confidence'' = Inr ''Medium''"
  using assms by (simp add: evaluate_init subscript_rule_2 getitem_conclusions)

theorem evaluate_rule_2_witness:
  "\<exists>rule conclusion.
     evaluate SimpleCovidExpert_init {''fever'', ''cough'', ''sore_throat''} =
       Inr (Some rule, conclusion) \<and>
     subscript rule ''name'' = Inr (Str ''Rule 2: Fever + Cough'') \<and>
     getitem conclusion ''confidence'' = Inr ''Medium''"
  using evaluate_rule_2 [of "{''fever'', ''cough'', ''sore_throat''}"]
  by simp

text \<open>
  Claim C4. When the facts contain neither the whole condition set of Rule 1 nor that of
  Rule 2, \<open>evaluate\<close> returns \<open>None\<close> as the matched rule together with the default
  conclusion, whose confidence is Low.
\<close>

theorem evaluate_default:
  assumes "\<forall>r \<in> set (rules SimpleCovidExpert_init). \<not> condition_set r \<subseteq> facts"
  shows "evaluate SimpleCovidExpert_init facts = Inr (None, default_rule) \<and>
         default_concl SimpleCovidExpert_init = default_rule \<and>
         getitem default_rule ''confidence'' = Inr ''Low''"
  using assms
  by (simp add: evaluate_init getitem_conclusions store_fields condition_set_rules)

theorem evaluate_default_witness:
  "evaluate SimpleCovidExpert_init {''fever'', ''sore_throat''} = Inr (None, default_rule) \<and>
   getitem default_rule ''confidence'' = Inr ''Low''"
  using evaluate_default [of "{''fever'', ''sore_throat''}"]
  by (simp add: store_fields condition_set_rules)

text \<open>
  Claim C5. On the store built by \<open>__init__\<close>, \<open>evaluate\<close> returns for every set of facts,
  the empty one included: no subscript raises, and the value returned is a conclusion with
  a label, a confidence and an advice.
\<close>

theorem evaluate_total:
  "\<exists>rule conclusion label confidence advice.
     evaluate SimpleCovidExpert_init facts = Inr (rule, conclusion) \<and>
     getitem conclusion ''label'' = Inr label \<and>
     getitem conclusion ''confidence'' = Inr confidence \<and>
     getitem conclusion ''advice'' = Inr advice"
  by (simp add: evaluate_init getitem_conclusions)

theorem evaluate_total_witness:
  "\<exists>conclusion. evaluate SimpleCovidExpert_init {} = Inr (None, conclusion) \<and>
     getitem conclusion ''confidence'' = Inr ''Low''"
  using evaluate_total [of "{}"]
  by (auto simp: evaluate_init getitem_conclusions)

text \<open>
  Claim C6. \<open>evaluate\<close> is deterministic and idempotent across calls. Its result is
  determined by the store and by which of the conditions of the store's rules are among the
  facts: two evaluations on the same store whose fact sets agree on every condition of every
  rule, and so any two evaluations with the same fact set, return the identical result, that
  is the same matched rule (or \<open>None\<close>) and the same conclusion with its label, confidence
  and advice. A diagnosis leaves the store and the check boxes as they were, so the
  evaluation that follows it has the identical result. Any two diagnoses with the same store
  and the same facts, whatever else the windows show, display the same label, confidence and
  advice and the same matched rule (or the default).
\<close>

theorem evaluate_deterministic:
  "(\<forall>store F G.
      (\<forall>r \<in> set (rules store). \<forall>c \<in> condition_set r. (c \<in> F) = (c \<in> G)) \<longrightarrow>
      evaluate store F = evaluate store G) \<and>
   (\<forall>u v. run_diagnosis u = Inr v \<longrightarrow>
      engine v = engine u \<and> symptoms_vars v = symptoms_vars u \<and>
      evaluate (engine v) (selected_facts (symptoms_vars v)) =
        evaluate (engine u) (selected_facts (symptoms_vars u))) \<and>
   (\<forall>u u' v.
      engine u' = engine u \<and>
      selected_facts (symptoms_vars u') = selected_facts (symptoms_vars u) \<and>
      run_diagnosis u = Inr v \<longrightarrow>
      (\<exists>v'. run_diagnosis u' = Inr v' \<and> result_var v' = result_var v \<and>
            confidence_var v' = confidence_var v \<and> advice_text v' = advice_text v \<and>
            explain_var v' = explain_var v))"
proof (intro conjI allI impI)
  fix store :: SimpleCovidExpert and F G :: "string set"
  assume "\<forall>r \<in> set (rules store). \<forall>c \<in> condition_set r. (c \<in> F) = (c \<in> G)"
  then show "evaluate store F = evaluate store G"
    unfolding evaluate_def by (rule evaluate_loop_agree)
next
  fix u v :: CovidExpertUI
  assume run: "run_diagnosis u = Inr v"
  then show "engine v = engine u" and "symptoms_vars v = symptoms_vars u"
    by (rule run_diagnosis_unchanged)+
  then show "evaluate (engine v) (selected_facts (symptoms_vars v)) =
        evaluate (engine u) (selected_facts (symptoms_vars u))"
    by simp
next
  fix u u' v :: CovidExpertUI
  assume a: "engine u' = engine u \<and>
      selected_facts (symptoms_vars u') = selected_facts (symptoms_vars u) \<and>
      run_diagnosis u = Inr v"
  then have run: "run_diagnosis u = Inr v" by simp
  from run show "\<exists>v'. run_diagnosis u' = Inr v' \<and> result_var v' = result_var v \<and>
            confidence_var v' = confidence_var v \<and> advice_text v' = advice_text v \<and>
            explain_var v' = explain_var v"
  proof (rule run_diagnosis_cases)
    fix rule conclusion label confidence advice explain
    assume ev: "evaluate (engine u) (selected_facts (symptoms_vars u)) = Inr (rule, conclusion)"
      and g: "getitem conclusion ''label'' = Inr label"
        "getitem conclusion ''confidence'' = Inr confidence"
        "getitem conclusion ''advice'' = Inr advice"
        "explanation rule = Inr explain"
      and v: "v = u\<lparr>result_var := label, confidence_var := confidence, advice_text := advice,
           explain_var := explain,
           messageboxes := messageboxes u @
             (if ''recent_exposure'' \<in> selected_facts (symptoms_vars u) \<and>
                 confidence \<in> set [''High'', ''Medium'']
              then [advisory] else [])\<rparr>"
    from ev a have "evaluate (engine u') (selected_facts (symptoms_vars u')) =
                      Inr (rule, conclusion)"
      by simp
    from run_diagnosis_returns [OF this g] v show ?thesis by simp
  qed
qed

text \<open>
  On the store of \<open>__init__\<close> a sore throat, which is a condition of no rule, does not
  change the result for fever and cough; two diagnoses in a row with fever and cough selected
  show the same result.
\<close>

theorem evaluate_deterministic_witness:
  "evaluate SimpleCovidExpert_init {''fever'', ''cough'', ''sore_throat''} =
     evaluate SimpleCovidExpert_init {''fever'', ''cough''} \<and>
   evaluate SimpleCovidExpert_init {''fever'', ''cough''} = Inr (Some rule_2, conclusion_2) \<and>
   (\<exists>v v'. run_diagnosis ui_fever_cough = Inr v \<and> run_diagnosis v = Inr v' \<and>
      result_var v' = ''Possible COVID-19'' \<and> result_var v = ''Possible COVID-19'' \<and>
      confidence_var v' = confidence_var v \<and> advice_text v' = advice_text v \<and>
      explain_var v' = explain_var v)"
proof -
  have agree: "\<forall>r \<in> set (rules SimpleCovidExpert_init). \<forall>c \<in> condition_set r.
                 (c \<in> {''fever'', ''cough'', ''sore_throat''}) = (c \<in> {''fever'', ''cough''})"
    by (auto simp: store_fields condition_set_rules)
  from evaluate_deterministic [THEN conjunct1, THEN spec, THEN spec, THEN spec, THEN mp,
      OF agree]
  have irrelevant: "evaluate SimpleCovidExpert_init {''fever'', ''cough'', ''sore_throat''} =
                      evaluate SimpleCovidExpert_init {''fever'', ''cough''}" .
  have rule_2: "evaluate SimpleCovidExpert_init {''fever'', ''cough''} =
                  Inr (Some rule_2, conclusion_2)"
    by (simp add: evaluate_init)
  have "evaluate (engine ui_fever_cough) (selected_facts (symptoms_vars ui_fever_cough)) =
          Inr (Some rule_2, conclusion_2)"
    by (simp add: facts_fever_cough engine_fever_cough evaluate_init)
  from run_diagnosis_returns [OF this getitem_conclusions(4-6) explanation_rules(2)]
  obtain v where v: "run_diagnosis ui_fever_cough = Inr v" "result_var v = ''Possible COVID-19''"
    by simp
  from evaluate_deterministic [THEN conjunct2, THEN conjunct1, rule_format, OF v(1)]
  have same: "engine v = engine ui_fever_cough \<and>
              selected_facts (symptoms_vars v) = selected_facts (symptoms_vars ui_fever_cough) \<and>
              run_diagnosis ui_fever_cough = Inr v"
    using v(1) by simp
  from evaluate_deterministic [THEN conjunct2, THEN conjunct2, rule_format, OF same] v
  have "\<exists>v v'. run_diagnosis ui_fever_cough = Inr v \<and> run_diagnosis v = Inr v' \<and>
      result_var v' = ''Possible COVID-19'' \<and> result_var v = ''Possible COVID-19'' \<and>
      confidence_var v' = confidence_var v \<and> advice_text v' = advice_text v \<and>
      explain_var v' = explain_var v"
    by auto
  with irrelevant rule_2 show ?thesis by simp
qed

section \<open>Properties of the callbacks\<close>

text \<open>
  Claim C7. On the store of \<open>__init__\<close> a diagnosis always returns. Whenever a diagnosis
  returns, the information box with the advisory notice is shown if and only if
  \<open>recent_exposure\<close> is among the facts and the conclusion returned by \<open>evaluate\<close> has
  confidence High or Medium. With the facts fever, loss of taste or smell and recent exposure
  the notice is shown (confidence High); with recent exposure alone it is not (confidence
  Low).
\<close>

theorem advisory_notice:
  "(\<forall>u. engine u = SimpleCovidExpert_init \<longrightarrow> (\<exists>v. run_diagnosis u = Inr v)) \<and>
   (\<forall>u v. run_diagnosis u = Inr v \<longrightarrow>
      (\<exists>rule conclusion confidence.
         evaluate (engine u) (selected_facts (symptoms_vars u)) = Inr (rule, conclusion) \<and>
         getitem conclusion ''confidence'' = Inr confidence \<and>
         messageboxes v =
           messageboxes u @
           (if ''recent_exposure'' \<in> selected_facts (symptoms_vars u) \<and>
               (confidence = ''High'' \<or> confidence = ''Medium'')
            then [advisory] else []))) \<and>
   (\<exists>v. selected_facts (symptoms_vars ui_exposed_rule_1) =
          {''fever'', ''loss_taste_smell'', ''recent_exposure''} \<and>
        run_diagnosis ui_exposed_rule_1 = Inr v \<and> confidence_var v = ''High'' \<and>
        messageboxes v = messageboxes ui_exposed_rule_1 @ [advisory]) \<and>
   (\<exists>v. selected_facts (symptoms_vars ui_exposed_only) = {''recent_exposure''} \<and>
        run_diagnosis ui_exposed_only = Inr v \<and> confidence_var v = ''Low'' \<and>
        messageboxes v = messageboxes ui_exposed_only)"
proof (intro conjI allI impI)
  fix u :: CovidExpertUI
  assume "engine u = SimpleCovidExpert_init"
  then show "\<exists>v. run_diagnosis u = Inr v" by (rule run_diagnosis_init_returns)
next
  let ?u = ui_exposed_rule_1
  have facts: "selected_facts (symptoms_vars ?u) =
                 {''fever'', ''loss_taste_smell'', ''recent_exposure''}"
    by (rule facts_exposed_rule_1)
  have "evaluate (engine ?u) (selected_facts (symptoms_vars ?u)) =
          Inr (Some rule_1, conclusion_1)"
    by (simp add: facts engine_examples evaluate_init)
  from run_diagnosis_returns [OF this getitem_conclusions(1-3) explanation_rules(1)] facts
  show "\<exists>v. selected_facts (symptoms_vars ?u) =
               {''fever'', ''loss_taste_smell'', ''recent_exposure''} \<and>
             run_diagnosis ?u = Inr v \<and> confidence_var v = ''High'' \<and>
             messageboxes v = messageboxes ?u @ [advisory]"
    by simp
next
  let ?u = ui_exposed_only
  have facts: "selected_facts (symptoms_vars ?u) = {''recent_exposure''}"
    by (rule facts_exposed_only)
  have "evaluate (engine ?u) (selected_facts (symptoms_vars ?u)) = Inr (None, default_rule)"
    by (simp add: facts engine_examples evaluate_init)
  from run_diagnosis_returns [OF this getitem_conclusions(7-9) explanation_rules(3)] facts
  show "\<exists>v. selected_facts (symptoms_vars ?u) = {''recent_exposure''} \<and>
             run_diagnosis ?u = Inr v \<and> confidence_var v = ''Low'' \<and>
             messageboxes v = messageboxes ?u"
    by simp
next
  fix u v :: CovidExpertUI
  assume "run_diagnosis u = Inr v"
  then show "\<exists>rule conclusion confidence.
         evaluate (engine u) (selected_facts (symptoms_vars u)) = Inr (rule, conclusion) \<and>
         getitem conclusion ''confidence'' = Inr confidence \<and>
         messageboxes v =
           messageboxes u @
           (if ''recent_exposure'' \<in> selected_facts (symptoms_vars u) \<and>
               (confidence = ''High'' \<or> confidence = ''Medium'')
            then [advisory] else [])"
    by (elim run_diagnosis_cases) auto
qed

text \<open>The diagnosis with fever, loss of taste or smell and recent exposure selected.\<close>

theorem advisory_notice_witness:
  "\<exists>v rule conclusion confidence.
     run_diagnosis ui_exposed_rule_1 = Inr v \<and>
     evaluate (engine ui_exposed_rule_1) (selected_facts (symptoms_vars ui_exposed_rule_1)) =
       Inr (rule, conclusion) \<and>
     getitem conclusion ''confidence'' = Inr confidence \<and>
     messageboxes v =
       messageboxes ui_exposed_rule_1 @
       (if ''recent_exposure'' \<in> selected_facts (symptoms_vars ui_exposed_rule_1) \<and>
           (confidence = ''High'' \<or> confidence = ''Medium'')
        then [advisory] else [])"
proof -
  from advisory_notice [THEN conjunct1, rule_format, OF engine_examples(2)]
  obtain v where v: "run_diagnosis ui_exposed_rule_1 = Inr v" ..
  from advisory_notice [THEN conjunct2, THEN conjunct1, rule_format, OF v] v
  show ?thesis by blast
qed

text \<open>
  Claim C8. The rule listing reports the two rules of the store in their declared order,
  then the default, and every name, condition set, label and confidence it shows is the
  one of the literals in \<open>__init__\<close>.
\<close>

theorem show_rules_listing:
  assumes "engine u = SimpleCovidExpert_init"
  shows "rules (engine u) = [rule_1, rule_2] \<and> default_concl (engine u) = default_rule \<and>
     subscript rule_1 ''name'' = Inr (Str ''Rule 1: Fever + Loss of Taste/Smell'') \<and>
     condition_set rule_1 = {''fever'', ''loss_taste_smell''} \<and>
     subscript rule_1 ''conclusion'' = Inr conclusion_1 \<and>
     getitem conclusion_1 ''label'' = Inr ''Likely COVID-19'' \<and>
     getitem conclusion_1 ''confidence'' = Inr ''High'' \<and>
     subscript rule_2 ''name'' = Inr (Str ''Rule 2: Fever + Cough'') \<and>
     condition_set rule_2 = {''fever'', ''cough''} \<and>
     subscript rule_2 ''conclusion'' = Inr conclusion_2 \<and>
     getitem conclusion_2 ''label'' = Inr ''Possible COVID-19'' \<and>
     getitem conclusion_2 ''confidence'' = Inr ''Medium'' \<and>
     getitem default_rule ''label'' = Inr ''Low likelihood of COVID-19'' \<and>
     getitem default_rule ''confidence'' = Inr ''Low'' \<and>
     show_rules u =
       Inr (''Rule 1: Fever + Loss of Taste/Smell:'' @ [newline] @
            ''  IF fever AND loss_taste_smell'' @ [newline] @
            ''  THEN Likely COVID-19 (High)'' @ [newline, newline] @
            ''Rule 2: Fever + Cough:'' @ [newline] @
            ''  IF fever AND cough'' @ [newline] @
            ''  THEN Possible COVID-19 (Medium)'' @ [newline, newline] @
            ''Default rule: Low likelihood of COVID-19 (Low)'')"
proof -
  have "show_rules_loop [rule_1, rule_2] [] =
       Inr (''Rule 1: Fever + Loss of Taste/Smell:'' @ [newline] @
            ''  IF fever AND loss_taste_smell'' @ [newline] @
            ''  THEN Likely COVID-19 (High)'' @ [newline, newline] @
            ''Rule 2: Fever + Cough:'' @ [newline] @
            ''  IF fever AND cough'' @ [newline] @
            ''  THEN Possible COVID-19 (Medium)'' @ [newline, newline])"
    by (simp add: and_then_def subscript_rule_1 subscript_rule_2 getitem_conclusions)
  then have "show_rules u =
       Inr (''Rule 1: Fever + Loss of Taste/Smell:'' @ [newline] @
            ''  IF fever AND loss_taste_smell'' @ [newline] @
            ''  THEN Likely COVID-19 (High)'' @ [newline, newline] @
            ''Rule 2: Fever + Cough:'' @ [newline] @
            ''  IF fever AND cough'' @ [newline] @
            ''  THEN Possible COVID-19 (Medium)'' @ [newline, newline] @
            ''Default rule: Low likelihood of COVID-19 (Low)'')"
    using assms by (simp add: show_rules_def and_then_def store_fields getitem_conclusions)
  with assms show ?thesis
    by (simp add: store_fields subscript_rule_1 subscript_rule_2 condition_set_rules
        getitem_conclusions)
qed

text \<open>The listing of the window as \<open>__init__\<close> builds it.\<close>

theorem show_rules_listing_witness:
  "engine CovidExpertUI_init = SimpleCovidExpert_init \<and>
   length (rules (engine CovidExpertUI_init)) = 2 \<and>
   show_rules CovidExpertUI_init =
       Inr (''Rule 1: Fever + Loss of Taste/Smell:'' @ [newline] @
            ''  IF fever AND loss_taste_smell'' @ [newline] @
            ''  THEN Likely COVID-19 (High)'' @ [newline, newline] @
            ''Rule 2: Fever + Cough:'' @ [newline] @
            ''  IF fever AND cough'' @ [newline] @
            ''  THEN Possible COVID-19 (Medium)'' @ [newline, newline] @
            ''Default rule: Low likelihood of COVID-19 (Low)'')"
  using show_rules_listing [OF engine_examples(1)] engine_examples(1)
  by simp

text \<open>
  Claim C9. The store of \<open>__init__\<close> is valid. In a valid store every rule has a non-empty
  condition set and the default conclusion exists, and \<open>evaluate\<close> returns an answer for
  every set of facts. No callback changes the store: a diagnosis, a reset and a click on a
  check box leave the engine as it was (the rule listing returns a text only).
\<close>

theorem store_invariant:
  "store_inv SimpleCovidExpert_init \<and>
   (\<forall>store. store_inv store \<longrightarrow>
      (\<forall>r \<in> set (rules store). condition_set r \<noteq> {}) \<and>
      is_conclusion (default_concl store) \<and>
      (\<forall>facts. \<exists>rule conclusion. evaluate store facts = Inr (rule, conclusion))) \<and>
   (\<forall>u v. run_diagnosis u = Inr v \<longrightarrow> engine v = engine u) \<and>
   (\<forall>u. engine (reset u) = engine u) \<and>
   (\<forall>k u. engine (toggle k u) = engine u)"
proof (intro conjI allI impI ballI)
  show "store_inv SimpleCovidExpert_init" by (rule store_inv_init)
next
  fix store r
  assume "store_inv store" and "r \<in> set (rules store)"
  then have "valid_rule r" by (simp add: store_inv_def list_all_iff)
  then show "condition_set r \<noteq> {}"
    by (auto simp: valid_rule_def condition_set_def split: sum.splits)
next
  fix store
  assume "store_inv store"
  then show "is_conclusion (default_concl store)" by (simp add: store_inv_def)
next
  fix store facts
  assume inv: "store_inv store"
  then have wf: "list_all valid_rule (rules store)" by (simp add: store_inv_def)
  show "\<exists>rule conclusion. evaluate store facts = Inr (rule, conclusion)"
  proof (cases "find (\<lambda>r. condition_set r \<subseteq> facts) (rules store)")
    case None
    from loop_find_None [OF wf None] show ?thesis by (simp add: evaluate_def)
  next
    case (Some r)
    from loop_find_Some [OF wf Some, of "default_concl store"] show ?thesis
      by (auto simp: evaluate_def)
  qed
next
  fix u v :: CovidExpertUI
  assume "run_diagnosis u = Inr v"
  then show "engine v = engine u" by (rule run_diagnosis_unchanged)
next
  fix u :: CovidExpertUI
  show "engine (reset u) = engine u" by (simp add: reset_def)
next
  fix k and u :: CovidExpertUI
  show "engine (toggle k u) = engine u" by (rule engine_toggle)
qed

text \<open>
  On the store of \<open>__init__\<close>: the empty set of facts has an answer, and after a diagnosis or
  a reset of the window with fever and cough selected the engine is the one of \<open>__init__\<close>.
\<close>

theorem store_invariant_witness:
  "store_inv SimpleCovidExpert_init \<and>
   rule_1 \<in> set (rules SimpleCovidExpert_init) \<and> condition_set rule_1 \<noteq> {} \<and>
   (\<exists>rule conclusion. evaluate SimpleCovidExpert_init {} = Inr (rule, conclusion)) \<and>
   (\<exists>v. run_diagnosis ui_fever_cough = Inr v \<and> engine v = SimpleCovidExpert_init) \<and>
   engine (reset ui_fever_cough) = SimpleCovidExpert_init"
proof -
  note inv = store_invariant [THEN conjunct1]
  note valid = store_invariant [THEN conjunct2, THEN conjunct1, rule_format, OF inv]
  have mem: "rule_1 \<in> set (rules SimpleCovidExpert_init)"
    by (simp add: store_fields)
  from valid mem have nonempty: "condition_set rule_1 \<noteq> {}" by blast
  from valid have answer: "\<exists>rule conclusion. evaluate SimpleCovidExpert_init {} = Inr (rule, conclusion)"
    by blast
  obtain v where v: "run_diagnosis ui_fever_cough = Inr v"
    using run_diagnosis_init_returns [OF engine_fever_cough] ..
  from store_invariant [THEN conjunct2, THEN conjunct2, THEN conjunct1, rule_format, OF v]
  have "engine v = SimpleCovidExpert_init" by (simp add: engine_fever_cough)
  with v have run: "\<exists>v. run_diagnosis ui_fever_cough = Inr v \<and> engine v = SimpleCovidExpert_init"
    by blast
  from store_invariant [THEN conjunct2, THEN conjunct2, THEN conjunct2, THEN conjunct1,
      rule_format, of ui_fever_cough]
  have "engine (reset ui_fever_cough) = SimpleCovidExpert_init"
    by (simp add: engine_fever_cough)
  with inv mem nonempty answer run show ?thesis by simp
qed

section \<open>Monotonicity of matching\<close>

text \<open>
  Claim C10. Matching is monotone in the facts. In a valid store, when \<open>evaluate\<close> returns
  a rule for \<open>F\<close> and \<open>F\<close> is contained in \<open>G\<close>, it returns a rule for \<open>G\<close> too, and the
  position \<open>j\<close> of the rule for \<open>G\<close> in the store's order is not after the position \<open>i\<close> of
  the rule for \<open>F\<close>.
\<close>

theorem evaluate_monotone:
  assumes inv: "store_inv store" and sub: "F \<subseteq> G"
    and F: "evaluate store F = Inr (Some r, c)"
  shows "\<exists>r' c' i j.
           evaluate store G = Inr (Some r', c') \<and> j \<le> i \<and> i < length (rules store) \<and>
           rules store ! i = r \<and> (\<forall>k<i. rules store ! k \<noteq> r) \<and>
           rules store ! j = r' \<and> (\<forall>k<j. rules store ! k \<noteq> r')"
proof -
  let ?rs = "rules store"
  from evaluate_find [OF inv F]
  obtain i where i: "i < length ?rs" "condition_set (?rs ! i) \<subseteq> F" "r = ?rs ! i"
    "\<forall>k<i. \<not> condition_set (?rs ! k) \<subseteq> F"
    unfolding find_Some_iff by blast
  from i sub have iG: "condition_set (?rs ! i) \<subseteq> G" by blast
  with i(1) have "find (\<lambda>r. condition_set r \<subseteq> G) ?rs \<noteq> None"
    unfolding find_None_iff by (metis nth_mem)
  then obtain r' where r': "find (\<lambda>r. condition_set r \<subseteq> G) ?rs = Some r'" by blast
  then obtain j where j: "j < length ?rs" "condition_set (?rs ! j) \<subseteq> G" "r' = ?rs ! j"
    "\<forall>k<j. \<not> condition_set (?rs ! k) \<subseteq> G"
    unfolding find_Some_iff by blast
  from inv have wf: "list_all valid_rule ?rs" by (simp add: store_inv_def)
  from loop_find_Some [OF wf r', of "default_concl store"]
  obtain c' where c': "evaluate store G = Inr (Some r', c')"
    by (auto simp: evaluate_def)
  from j(4) iG have ji: "j \<le> i" by (meson not_le_imp_less)
  from i have firsti: "\<forall>k<i. ?rs ! k \<noteq> r" by metis
  from j have firstj: "\<forall>k<j. ?rs ! k \<noteq> r'" by metis
  from c' ji i(1) i(3) firsti j(3) firstj show ?thesis by blast
qed

text \<open>
  On the store of \<open>__init__\<close>: fever and cough give Rule 2; with loss of taste or smell
  added a rule is still returned, at a position not after that of Rule 2.
\<close>

theorem evaluate_monotone_witness:
  "{''fever'', ''cough''} \<subseteq> {''fever'', ''cough'', ''loss_taste_smell''} \<and>
   evaluate SimpleCovidExpert_init {''fever'', ''cough''} = Inr (Some rule_2, conclusion_2) \<and>
   (\<exists>r' c' i j.
      evaluate SimpleCovidExpert_init {''fever'', ''cough'', ''loss_taste_smell''} =
        Inr (Some r', c') \<and> j \<le> i \<and> i < length (rules SimpleCovidExpert_init) \<and>
      rules SimpleCovidExpert_init ! i = rule_2 \<and>
      (\<forall>k<i. rules SimpleCovidExpert_init ! k \<noteq> rule_2) \<and>
      rules SimpleCovidExpert_init ! j = r' \<and>
      (\<forall>k<j. rules SimpleCovidExpert_init ! k \<noteq> r'))"
proof -
  have sub: "{''fever'', ''cough''} \<subseteq> {''fever'', ''cough'', ''loss_taste_smell''}"
    by simp
  have F: "evaluate SimpleCovidExpert_init {''fever'', ''cough''} =
             Inr (Some rule_2, conclusion_2)"
    by (simp add: evaluate_init)
  from sub F evaluate_monotone [OF store_inv_init sub F] show ?thesis by simp
qed

end
